theory Spec2Isabelle
  imports Main "HOL-Library.Sublist"
begin

section \<open>The component of src/App.svelte and the realtime SDK it calls\<close>

text \<open>
  The script block of \<^verbatim>\<open>src/App.svelte\<close> holds three component variables
  (\<^verbatim>\<open>messages\<close>, \<^verbatim>\<open>presenceData\<close>, \<^verbatim>\<open>channel\<close>), the \<^verbatim>\<open>onMount\<close>
  callback with the closures it creates (the message listener of line 17,
  \<^verbatim>\<open>updatePresence\<close> of line 21, the asynchronous function of lines 25-32 and the
  cleanup function of lines 34-43) and the two click handlers \<^verbatim>\<open>sendMessage\<close>
  and \<^verbatim>\<open>update\<close>.

  The realtime SDK is an external library. Every call the component makes on it is
  recorded, with its arguments, in a trace, in program order; assignments to the
  component variables are recorded in the same trace, so that the order of calls
  and assignments can be stated. SDK calls return normally (a promise or nothing);
  a promise settles in a later event.
\<close>

subsection \<open>Values\<close>

text \<open>An inbound message, as the template reads it: \<^verbatim>\<open>msg.name\<close>, \<^verbatim>\<open>msg.data.text\<close>.\<close>

datatype message = Message (msg_name: string) (msg_text: string)

text \<open>A presence member, as the template reads it: \<^verbatim>\<open>msg.clientId\<close>, \<^verbatim>\<open>msg.data\<close>.\<close>

datatype presence_message = PresenceMessage (clientId: string) (member_data: string)

text \<open>The object \<^verbatim>\<open>ably.channels.get(name)\<close> returns.\<close>

datatype channel_handle = Channel string

text \<open>
  The two functions \<^verbatim>\<open>onMount\<close> hands to the SDK: the arrow function of line 17 and
  \<^verbatim>\<open>updatePresence\<close> of line 21.
\<close>

datatype listener = MessageListener | UpdatePresence

text \<open>A JavaScript value passed where the SDK expects a listener.\<close>

datatype js_value = Fn listener | Obj channel_handle

datatype js_error = TypeError | PublishError | PresenceUpdateError

datatype sdk_call =
    Realtime_new string string
  | Channels_get string
  | Channel_subscribe listener
  | Presence_subscribe string listener
  | Presence_enter string
  | Presence_get
  | Presence_leave
  | Presence_unsubscribe string
  | Channel_unsubscribe js_value
  | Channel_detach
  | Channel_publish string string
  | Presence_update string

datatype effect =
    Call sdk_call
  | Assign_channel channel_handle
  | Assign_messages "message list"
  | Assign_presenceData "presence_message list"

subsection \<open>State\<close>

text \<open>
  The asynchronous function of lines 25-32 suspends twice: at
  \<^verbatim>\<open>await channel.presence.enter("")\<close> and at \<^verbatim>\<open>await channel.presence.get()\<close>.
  A rejected promise ends it.
\<close>

datatype iife_state = NotStarted | AwaitingEnter | AwaitingGet | Finished | Rejected

datatype phase = Created | Mounted | Destroyed

text \<open>
  The first three fields are the component variables of lines 5-7. \<open>trace\<close> is the
  record of effects. \<open>iife\<close> is where the asynchronous function of lines 25-32
  stands, \<open>fetches\<close> the number of \<^verbatim>\<open>updatePresence\<close> calls suspended at their
  \<^verbatim>\<open>await\<close>. \<open>phase\<close> is the lifecycle of the component instance: Svelte runs the
  \<^verbatim>\<open>onMount\<close> callback once per instance and the function it returned once, when
  the instance is destroyed.

  The remaining fields are the SDK's side, following the contract of its calls:
  \<^verbatim>\<open>channel.subscribe(listener)\<close> adds the listener to the channel's subscriptions
  and \<^verbatim>\<open>channel.unsubscribe(listener)\<close> removes that listener;
  \<^verbatim>\<open>presence.subscribe(event, listener)\<close> adds the listener under the event name and
  \<^verbatim>\<open>presence.unsubscribe(event)\<close> removes the listeners under that name;
  \<open>entered\<close> holds once the promise of \<^verbatim>\<open>presence.enter\<close> has been fulfilled,
  \<open>detached\<close> once \<^verbatim>\<open>channel.detach()\<close> has been called.
\<close>

record world =
  messages :: "message list"
  presenceData :: "presence_message list"
  channel :: "channel_handle option"
  trace :: "effect list"
  iife :: iife_state
  fetches :: nat
  phase :: phase
  channel_subs :: "listener list"
  presence_subs :: "(string \<times> listener) list"
  entered :: bool
  detached :: bool

text \<open>Lines 5-7: \<^verbatim>\<open>let messages = []; let presenceData = []; let channel = null;\<close>\<close>

definition init :: world where
  "init = \<lparr> messages = [], presenceData = [], channel = None, trace = [],
     iife = NotStarted, fetches = 0, phase = Created,
     channel_subs = [], presence_subs = [], entered = False, detached = False \<rparr>"

definition emit :: "effect \<Rightarrow> world \<Rightarrow> world" where
  "emit e w = w\<lparr>trace := trace w @ [e]\<rparr>"

subsection \<open>The SDK's listener registry\<close>

definition sdk_channel_subscribe :: "listener \<Rightarrow> world \<Rightarrow> world" where
  "sdk_channel_subscribe l w =
     emit (Call (Channel_subscribe l)) (w\<lparr>channel_subs := channel_subs w @ [l]\<rparr>)"

text \<open>Removes the subscriptions whose listener is the value passed.\<close>

definition sdk_channel_unsubscribe :: "js_value \<Rightarrow> world \<Rightarrow> world" where
  "sdk_channel_unsubscribe v w =
     emit (Call (Channel_unsubscribe v))
       (w\<lparr>channel_subs := filter (\<lambda>l. Fn l \<noteq> v) (channel_subs w)\<rparr>)"

definition sdk_presence_subscribe :: "string \<Rightarrow> listener \<Rightarrow> world \<Rightarrow> world" where
  "sdk_presence_subscribe ev l w =
     emit (Call (Presence_subscribe ev l)) (w\<lparr>presence_subs := presence_subs w @ [(ev, l)]\<rparr>)"

definition sdk_presence_unsubscribe :: "string \<Rightarrow> world \<Rightarrow> world" where
  "sdk_presence_unsubscribe ev w =
     emit (Call (Presence_unsubscribe ev))
       (w\<lparr>presence_subs := filter (\<lambda>p. fst p \<noteq> ev) (presence_subs w)\<rparr>)"

definition sdk_channel_detach :: "world \<Rightarrow> world" where
  "sdk_channel_detach w = emit (Call Channel_detach) (w\<lparr>detached := True\<rparr>)"

subsection \<open>The closures of onMount\<close>

text \<open>Lines 17-19: \<^verbatim>\<open>(message) => { messages = [...messages, message]; }\<close>\<close>

definition message_listener :: "message \<Rightarrow> world \<Rightarrow> world" where
  "message_listener m w =
     emit (Assign_messages (messages w @ [m])) (w\<lparr>messages := messages w @ [m]\<rparr>)"

text \<open>
  Lines 21-23, \<^verbatim>\<open>presenceData = await channel.presence.get()\<close>, in two halves: the
  call, up to the \<^verbatim>\<open>await\<close>, and the assignment, when the promise is fulfilled.
  A rejected promise ends the function without the assignment.
\<close>

definition updatePresence_call :: "world \<Rightarrow> js_error + world" where
  "updatePresence_call w =
     (case channel w of
        None \<Rightarrow> Inl TypeError
      | Some h \<Rightarrow> Inr (emit (Call Presence_get) (w\<lparr>fetches := Suc (fetches w)\<rparr>)))"

definition assign_presenceData :: "presence_message list \<Rightarrow> world \<Rightarrow> world" where
  "assign_presenceData s w = emit (Assign_presenceData s) (w\<lparr>presenceData := s\<rparr>)"

definition updatePresence_resume :: "presence_message list option \<Rightarrow> world \<Rightarrow> world" where
  "updatePresence_resume r w =
     (case r of
        None \<Rightarrow> w\<lparr>fetches := fetches w - 1\<rparr>
      | Some s \<Rightarrow> assign_presenceData s (w\<lparr>fetches := fetches w - 1\<rparr>))"

text \<open>
  Lines 25-32. The first part runs inside \<^verbatim>\<open>onMount\<close>, up to the first \<^verbatim>\<open>await\<close>:
  the three presence subscriptions and the call of \<^verbatim>\<open>presence.enter("")\<close>.
\<close>

definition iife_start :: "world \<Rightarrow> world" where
  "iife_start w =
     (emit (Call (Presence_enter ''''))
       (sdk_presence_subscribe ''update'' UpdatePresence
         (sdk_presence_subscribe ''leave'' UpdatePresence
           (sdk_presence_subscribe ''enter'' UpdatePresence w))))\<lparr>iife := AwaitingEnter\<rparr>"

text \<open>Line 31, the call \<^verbatim>\<open>channel.presence.get()\<close>, once the promise of line 30 has settled.\<close>

definition iife_after_enter :: "bool \<Rightarrow> world \<Rightarrow> js_error + world" where
  "iife_after_enter fulfilled w =
     (if fulfilled then
        (case channel w of
           None \<Rightarrow> Inl TypeError
         | Some h \<Rightarrow> Inr (emit (Call Presence_get) (w\<lparr>entered := True, iife := AwaitingGet\<rparr>)))
      else Inr (w\<lparr>iife := Rejected\<rparr>))"

text \<open>Line 31, the assignment to \<^verbatim>\<open>presenceData\<close>, once the promise of the call has settled.\<close>

definition iife_after_get :: "presence_message list option \<Rightarrow> world \<Rightarrow> world" where
  "iife_after_get r w =
     (case r of
        None \<Rightarrow> w\<lparr>iife := Rejected\<rparr>
      | Some s \<Rightarrow> assign_presenceData s (w\<lparr>iife := Finished\<rparr>))"

text \<open>
  Lines 9-33: the body of the \<^verbatim>\<open>onMount\<close> callback, up to its \<^verbatim>\<open>return\<close>. Line 15
  assigns \<^verbatim>\<open>channel\<close> the object \<^verbatim>\<open>ably.channels.get\<close> returns, so the dereferences
  of lines 17-30 find it assigned.
\<close>

definition onMount :: "world \<Rightarrow> world" where
  "onMount w =
     iife_start
       (sdk_channel_subscribe MessageListener
         (emit (Assign_channel (Channel ''your-channel-name''))
           (emit (Call (Channels_get ''your-channel-name''))
             (emit (Call (Realtime_new ''your-api-key-here'' ''someid'')) w))
           \<lparr>channel := Some (Channel ''your-channel-name'')\<rparr>))"

text \<open>
  Lines 34-43: the function \<^verbatim>\<open>onMount\<close> returns. Line 41 passes the channel object
  to \<^verbatim>\<open>channel.unsubscribe\<close>. The first statement dereferences \<^verbatim>\<open>channel\<close>, which
  no statement of the function assigns.
\<close>

definition cleanup :: "world \<Rightarrow> js_error + world" where
  "cleanup w =
     (case channel w of
        None \<Rightarrow> Inl TypeError
      | Some h \<Rightarrow>
          Inr (sdk_channel_detach
                (sdk_channel_unsubscribe (Obj h)
                  (assign_presenceData []
                    (sdk_presence_unsubscribe ''update''
                      (sdk_presence_unsubscribe ''leave''
                        (sdk_presence_unsubscribe ''enter''
                          (emit (Call Presence_leave) w))))))))"

subsection \<open>The click handlers\<close>

text \<open>Lines 46-48. The promise \<^verbatim>\<open>channel.publish\<close> returns is dropped.\<close>

definition sendMessage :: "world \<Rightarrow> js_error + world" where
  "sendMessage w =
     (case channel w of
        None \<Rightarrow> Inl TypeError
      | Some h \<Rightarrow> Inr (emit (Call (Channel_publish ''test-message'' ''message text'')) w))"

text \<open>Lines 50-52. The promise \<^verbatim>\<open>channel.presence.update\<close> returns is dropped.\<close>

definition update :: "string \<Rightarrow> world \<Rightarrow> js_error + world" where
  "update text w =
     (case channel w of
        None \<Rightarrow> Inl TypeError
      | Some h \<Rightarrow> Inr (emit (Call (Presence_update text)) w))"

subsection \<open>The event loop\<close>

datatype presence_action = Enter | Leave | Update

fun action_name :: "presence_action \<Rightarrow> string" where
  "action_name Enter = ''enter''"
| "action_name Leave = ''leave''"
| "action_name Update = ''update''"

text \<open>
  What the event loop can run: the two lifecycle callbacks, a message or a presence
  event the SDK delivers to the listeners subscribed, the settling of a pending
  promise (\<open>None\<close> and \<open>False\<close> stand for rejection), and the two buttons of
  lines 58-59.
\<close>

datatype event =
    Mount
  | Destroy
  | Deliver message
  | PresenceEvent presence_action
  | EnterSettled bool
  | InitialGetSettled "presence_message list option"
  | FetchSettled "presence_message list option"
  | ClickSend
  | ClickUpdate

text \<open>An exception that leaves a handler is reported by the runtime; the state stays.\<close>

definition uncaught :: "world \<Rightarrow> js_error + world \<Rightarrow> world" where
  "uncaught w r = (case r of Inl e \<Rightarrow> w | Inr w' \<Rightarrow> w')"

text \<open>The SDK calls a listener once for each of its subscriptions.\<close>

definition deliver :: "message \<Rightarrow> world \<Rightarrow> world" where
  "deliver m w = (message_listener m ^^ count_list (channel_subs w) MessageListener) w"

definition presence_event :: "presence_action \<Rightarrow> world \<Rightarrow> world" where
  "presence_event a w =
     ((\<lambda>v. uncaught v (updatePresence_call v)) ^^
        count_list (presence_subs w) (action_name a, UpdatePresence)) w"

fun step :: "event \<Rightarrow> world \<Rightarrow> world" where
  "step Mount w = (if phase w = Created then (onMount w)\<lparr>phase := Mounted\<rparr> else w)"
| "step Destroy w =
     (if phase w = Mounted then (uncaught w (cleanup w))\<lparr>phase := Destroyed\<rparr> else w)"
| "step (Deliver m) w = deliver m w"
| "step (PresenceEvent a) w = presence_event a w"
| "step (EnterSettled b) w =
     (if iife w = AwaitingEnter then uncaught (w\<lparr>iife := Rejected\<rparr>) (iife_after_enter b w) else w)"
| "step (InitialGetSettled r) w = (if iife w = AwaitingGet then iife_after_get r w else w)"
| "step (FetchSettled r) w = (if 0 < fetches w then updatePresence_resume r w else w)"
| "step ClickSend w = uncaught w (sendMessage w)"
| "step ClickUpdate w = uncaught w (update ''hello'' w)"

definition run :: "event list \<Rightarrow> world \<Rightarrow> world" where
  "run evs w = fold step evs w"

subsection \<open>Notions the properties are stated with\<close>

text \<open>The effects of \<^verbatim>\<open>onMount\<close> on a fresh instance, in program order.\<close>

definition mount_trace :: "effect list" where
  "mount_trace = trace (onMount init)"

text \<open>The messages an event sequence delivers, in arrival order.\<close>

fun delivered :: "event list \<Rightarrow> message list" where
  "delivered [] = []"
| "delivered (Deliver m # evs) = m # delivered evs"
| "delivered (e # evs) = delivered evs"

text \<open>
  No \<^verbatim>\<open>channel.presence.get()\<close> is pending and none can still be made by the
  asynchronous function of lines 25-32: no call of \<^verbatim>\<open>updatePresence\<close> is suspended
  at its \<^verbatim>\<open>await\<close>, and the asynchronous function has run to its end or was ended
  by a rejected promise.
\<close>

definition nothing_pending :: "world \<Rightarrow> bool" where
  "nothing_pending w = (fetches w = 0 \<and> (iife w = Finished \<or> iife w = Rejected))"

text \<open>
  What holds of every state an instance can reach: before \<^verbatim>\<open>onMount\<close> nothing has
  happened; from \<^verbatim>\<open>onMount\<close> on, \<^verbatim>\<open>channel\<close> is the handle assigned in line 15 and the
  trace starts with the effects of \<^verbatim>\<open>onMount\<close>; the presence listeners are
  subscribed exactly while the instance is mounted.
\<close>

definition wf :: "world \<Rightarrow> bool" where
  "wf w =
     (case phase w of
        Created \<Rightarrow> w = init
      | Mounted \<Rightarrow>
          channel w = Some (Channel ''your-channel-name'') \<and>
          channel_subs w = [MessageListener] \<and>
          presence_subs w =
            [(''enter'', UpdatePresence), (''leave'', UpdatePresence), (''update'', UpdatePresence)] \<and>
          prefix mount_trace (trace w) \<and> \<not> detached w
      | Destroyed \<Rightarrow>
          channel w = Some (Channel ''your-channel-name'') \<and>
          channel_subs w = [MessageListener] \<and>
          presence_subs w = [] \<and>
          prefix mount_trace (trace w) \<and> detached w)"

section \<open>Reachable states\<close>

lemmas handler_defs = emit_def sdk_channel_subscribe_def sdk_channel_unsubscribe_def
  sdk_presence_subscribe_def sdk_presence_unsubscribe_def sdk_channel_detach_def
  message_listener_def updatePresence_call_def assign_presenceData_def updatePresence_resume_def
  iife_start_def iife_after_enter_def iife_after_get_def onMount_def cleanup_def
  sendMessage_def update_def uncaught_def

lemmas model_defs = handler_defs deliver_def presence_event_def

lemma mount_trace_eq:
  "mount_trace =
     [Call (Realtime_new ''your-api-key-here'' ''someid''),
      Call (Channels_get ''your-channel-name''),
      Assign_channel (Channel ''your-channel-name''),
      Call (Channel_subscribe MessageListener),
      Call (Presence_subscribe ''enter'' UpdatePresence),
      Call (Presence_subscribe ''leave'' UpdatePresence),
      Call (Presence_subscribe ''update'' UpdatePresence),
      Call (Presence_enter '''')]"
  by (simp add: mount_trace_def model_defs init_def)

lemma wf_init: "wf init"
  by (simp add: wf_def init_def)

lemma wf_Created: "wf w \<Longrightarrow> phase w = Created \<Longrightarrow> w = init"
  by (simp add: wf_def)

lemma step_init: "e \<noteq> Mount \<Longrightarrow> step e init = init"
  by (cases e) (simp_all add: model_defs init_def)

lemma step_Mount_init: "wf (step Mount init)"
  by (simp add: wf_def mount_trace_def model_defs init_def)

lemma wf_step_Created: "phase w = Created \<Longrightarrow> wf w \<Longrightarrow> wf (step e w)"
  using step_init [of e] step_Mount_init wf_init wf_Created [of w] by (cases "e = Mount") auto

lemma wf_step_Mounted: "phase w = Mounted \<Longrightarrow> wf w \<Longrightarrow> wf (step e w)"
  by (cases e) (simp_all add: wf_def model_defs split: option.splits)

lemma wf_step_Destroyed: "phase w = Destroyed \<Longrightarrow> wf w \<Longrightarrow> wf (step e w)"
  by (cases e) (simp_all add: wf_def model_defs split: option.splits)

lemma wf_step: "wf w \<Longrightarrow> wf (step e w)"
  by (cases "phase w") (simp_all add: wf_step_Created wf_step_Mounted wf_step_Destroyed)

lemma wf_fold: "wf w \<Longrightarrow> wf (fold step evs w)"
  by (induction evs arbitrary: w) (simp_all add: wf_step)

lemma wf_run: "wf (run evs init)"
  by (simp add: run_def wf_fold wf_init)

lemma presence_event_Mounted:
  "wf w \<Longrightarrow> phase w = Mounted \<Longrightarrow>
     presence_event a w = emit (Call Presence_get) (w\<lparr>fetches := Suc (fetches w)\<rparr>)"
  by (cases a) (simp_all add: wf_def presence_event_def updatePresence_call_def uncaught_def)

lemma presence_event_idle: "wf w \<Longrightarrow> phase w \<noteq> Mounted \<Longrightarrow> presence_event a w = w"
  by (cases "phase w") (simp_all add: wf_def presence_event_def init_def)

lemma deliver_subscribed: "wf w \<Longrightarrow> phase w \<noteq> Created \<Longrightarrow> deliver m w = message_listener m w"
  by (cases "phase w") (simp_all add: wf_def deliver_def)

lemma channel_wf: "wf w \<Longrightarrow> phase w \<noteq> Created \<Longrightarrow> channel w = Some (Channel ''your-channel-name'')"
  by (cases "phase w") (simp_all add: wf_def)

lemma channel_Created: "wf w \<Longrightarrow> phase w = Created \<Longrightarrow> channel w = None"
  by (simp add: wf_def init_def)

lemma channel_subs_wf: "wf w \<Longrightarrow> phase w \<noteq> Created \<Longrightarrow> channel_subs w = [MessageListener]"
  by (cases "phase w") (simp_all add: wf_def)

lemma deliver_wf:
  "wf w \<Longrightarrow> deliver m w = (if phase w = Created then w else message_listener m w)"
  by (cases "phase w") (simp_all add: wf_def deliver_def init_def)

lemma presence_event_wf:
  "wf w \<Longrightarrow> presence_event a w =
     (if phase w = Mounted then emit (Call Presence_get) (w\<lparr>fetches := Suc (fetches w)\<rparr>) else w)"
  by (simp add: presence_event_Mounted presence_event_idle)

lemma run_snoc: "run (evs @ [e]) w = step e (run evs w)"
  by (simp add: run_def)

lemma run_snoc2: "run (evs @ [e, e']) w = step e' (step e (run evs w))"
  by (simp add: run_def)

lemma run_before_Mount: "Mount \<notin> set evs \<Longrightarrow> run evs init = init"
  by (induction evs) (auto simp add: run_def step_init)

lemma phase_step: "wf w \<Longrightarrow> phase w \<noteq> Created \<Longrightarrow> phase (step e w) \<noteq> Created"
  by (cases e)
    (simp_all add: deliver_wf presence_event_wf channel_wf handler_defs split: option.splits)

lemma phase_fold: "wf w \<Longrightarrow> phase w \<noteq> Created \<Longrightarrow> phase (fold step evs w) \<noteq> Created"
  by (induction evs arbitrary: w) (simp_all add: phase_step wf_step)

lemma phase_after_Mount: "phase (run (Mount # evs) init) \<noteq> Created"
proof -
  have "phase (step Mount init) \<noteq> Created" by (simp add: init_def)
  from phase_fold [OF step_Mount_init this] show ?thesis by (simp add: run_def)
qed

section \<open>Listener registrations and their release\<close>

text \<open>
  C1. Every listener registration of onMount should have one matching deregistration
  in the cleanup function. Evaluated on a mount followed by the destruction of the
  instance: the three presence subscriptions are gone, but the message listener
  subscribed in line 17 is still subscribed, because line 41 passes the channel
  object, not the listener, to \<^verbatim>\<open>channel.unsubscribe\<close>; a message delivered
  afterwards still reaches it. Whatever follows \<^verbatim>\<open>onMount\<close>, the listener stays
  subscribed, once.
\<close>

theorem message_listener_left_subscribed:
  "count_list (channel_subs (run [Mount] init)) MessageListener = 1 \<and>
   count_list (channel_subs (run [Mount, Destroy] init)) MessageListener = 1 \<and>
   presence_subs (run [Mount, Destroy] init) = [] \<and>
   Call (Channel_unsubscribe (Obj (Channel ''your-channel-name''))) \<in>
     set (trace (run [Mount, Destroy] init)) \<and>
   Call (Channel_unsubscribe (Fn MessageListener)) \<notin> set (trace (run [Mount, Destroy] init)) \<and>
   messages (run [Mount, Destroy, Deliver (Message ''test-message'' ''message text'')] init) =
     [Message ''test-message'' ''message text''] \<and>
   count_list (channel_subs (run (Mount # evs) init)) MessageListener = 1"
proof -
  have "count_list (channel_subs (run (Mount # evs) init)) MessageListener = 1"
    by (simp add: channel_subs_wf [OF wf_run phase_after_Mount])
  then show ?thesis by (simp add: model_defs run_def init_def)
qed

section \<open>Messages\<close>

lemma step_Mounted_messages:
  "wf w \<Longrightarrow> phase w = Mounted \<Longrightarrow> e \<noteq> Destroy \<Longrightarrow>
     phase (step e w) = Mounted \<and> messages (step e w) = messages w @ delivered [e]"
  by (cases e)
    (simp_all add: presence_event_Mounted deliver_subscribed channel_wf emit_def
      message_listener_def iife_after_enter_def iife_after_get_def updatePresence_resume_def
      assign_presenceData_def sendMessage_def update_def uncaught_def split: option.splits)

lemma delivered_Cons: "delivered (e # evs) = delivered [e] @ delivered evs"
  by (cases e) simp_all

lemma fold_Mounted_messages:
  "wf w \<Longrightarrow> phase w = Mounted \<Longrightarrow> Destroy \<notin> set evs \<Longrightarrow>
     phase (fold step evs w) = Mounted \<and> messages (fold step evs w) = messages w @ delivered evs"
proof (induction evs arbitrary: w)
  case Nil
  then show ?case by simp
next
  case (Cons e evs)
  from Cons.prems have e: "e \<noteq> Destroy" and evs: "Destroy \<notin> set evs" by auto
  have s: "phase (step e w) = Mounted" "messages (step e w) = messages w @ delivered [e]"
    using step_Mounted_messages [OF Cons.prems(1,2) e] by simp_all
  have "wf (step e w)" using Cons.prems(1) by (rule wf_step)
  from Cons.IH [OF this s(1) evs] s(2) show ?case
    using delivered_Cons [of e evs] by simp
qed

text \<open>
  C2. Whatever events follow the mount of a fresh instance, as long as the instance
  is not destroyed, \<^verbatim>\<open>messages\<close> is exactly the list of the messages delivered, in
  the order of their arrival: none dropped, none twice, none out of order.
\<close>

theorem messages_in_arrival_order:
  "Destroy \<notin> set evs \<Longrightarrow> messages (run (Mount # evs) init) = delivered evs"
proof -
  assume a: "Destroy \<notin> set evs"
  have w: "wf (step Mount init)" by (rule step_Mount_init)
  have p: "phase (step Mount init) = Mounted" "messages (step Mount init) = []"
    by (simp_all add: model_defs init_def)
  from fold_Mounted_messages [OF w p(1) a] p(2) show ?thesis by (simp add: run_def)
qed

theorem messages_in_arrival_order_witness:
  "messages (run [Mount, Deliver (Message ''a'' ''1''), PresenceEvent Enter, ClickSend,
       Deliver (Message ''b'' ''2''), Deliver (Message ''a'' ''1'')] init) =
     [Message ''a'' ''1'', Message ''b'' ''2'', Message ''a'' ''1'']"
  using messages_in_arrival_order [of "[Deliver (Message ''a'' ''1''), PresenceEvent Enter, ClickSend,
       Deliver (Message ''b'' ''2''), Deliver (Message ''a'' ''1'')]"]
  by simp

section \<open>The visible state after the cleanup function\<close>

text \<open>
  C3, as stated, fails. A presence event starts \<^verbatim>\<open>updatePresence\<close>, which suspends at
  its \<^verbatim>\<open>await\<close>; the instance is destroyed; the promise is fulfilled afterwards and
  line 22 assigns \<^verbatim>\<open>presenceData\<close> of the instance torn down. The same happens with
  the asynchronous function of lines 25-32 when the instance is destroyed before
  \<^verbatim>\<open>presence.enter\<close> has settled.
\<close>

theorem fetch_in_flight_assigns_after_release:
  "phase (run [Mount, PresenceEvent Enter, Destroy] init) = Destroyed \<and>
   presenceData (run [Mount, PresenceEvent Enter, Destroy] init) = [] \<and>
   presenceData (run [Mount, PresenceEvent Enter, Destroy,
       FetchSettled (Some [PresenceMessage ''someid'' ''''])] init) =
     [PresenceMessage ''someid'' ''''] \<and>
   presenceData (run [Mount, Destroy, EnterSettled True,
       InitialGetSettled (Some [PresenceMessage ''someid'' ''''])] init) =
     [PresenceMessage ''someid'' '''']"
  by (simp add: model_defs run_def init_def)

lemma step_Destroy_state:
  "wf w \<Longrightarrow> phase w = Mounted \<Longrightarrow>
     phase (step Destroy w) = Destroyed \<and> messages (step Destroy w) = messages w \<and>
     presenceData (step Destroy w) = [] \<and> fetches (step Destroy w) = fetches w \<and>
     iife (step Destroy w) = iife w"
  by (simp add: channel_wf model_defs)

lemma step_Destroyed_frame:
  "wf w \<Longrightarrow> phase w = Destroyed \<Longrightarrow>
     phase (step e w) = Destroyed \<and> fetches (step e w) \<le> fetches w \<and>
     messages (step e w) = messages w @ delivered [e]"
  by (cases e)
    (simp_all add: deliver_wf presence_event_wf channel_wf handler_defs split: option.splits)

lemma fold_Destroyed_frame:
  "wf w \<Longrightarrow> phase w = Destroyed \<Longrightarrow>
     fetches (fold step evs w) \<le> fetches w \<and>
     messages (fold step evs w) = messages w @ delivered evs"
proof (induction evs arbitrary: w)
  case Nil
  then show ?case by simp
next
  case (Cons e evs)
  note s = step_Destroyed_frame [OF Cons.prems, of e]
  have "wf (step e w)" using Cons.prems(1) by (rule wf_step)
  from Cons.IH [OF this] s show ?case
    using delivered_Cons [of e evs] by simp
qed

lemma step_Destroyed_settled:
  "wf w \<Longrightarrow> phase w = Destroyed \<Longrightarrow> nothing_pending w \<Longrightarrow> presenceData w = [] \<Longrightarrow>
     nothing_pending (step e w) \<and> presenceData (step e w) = []"
  by (cases e)
    (auto simp add: nothing_pending_def deliver_wf presence_event_wf channel_wf handler_defs
      split: option.splits)

lemma fold_Destroyed_settled:
  "wf w \<Longrightarrow> phase w = Destroyed \<Longrightarrow> nothing_pending w \<Longrightarrow> presenceData w = [] \<Longrightarrow>
     presenceData (fold step evs w) = []"
proof (induction evs arbitrary: w)
  case Nil
  then show ?case by simp
next
  case (Cons e evs)
  note s = step_Destroyed_settled [OF Cons.prems, of e]
  note f = step_Destroyed_frame [OF Cons.prems(1,2), of e]
  have "wf (step e w)" using Cons.prems(1) by (rule wf_step)
  from Cons.IH [OF this] s f show ?case by simp
qed

text \<open>
  C3, amended. Take any reachable state of a mounted instance, run the cleanup
  function and then any sequence of events whatsoever. Presence events start no
  fetch any more: the number of suspended \<^verbatim>\<open>updatePresence\<close> calls never exceeds
  what it was at the cleanup. If nothing was pending at the cleanup,
  \<^verbatim>\<open>presenceData\<close> is empty after every such sequence, fulfilled promises and
  presence events included. If the sequence delivers no message, \<^verbatim>\<open>messages\<close> is
  what it was at the cleanup.
\<close>

theorem visible_state_after_release:
  assumes "phase (run evs init) = Mounted"
  shows "fetches (run (evs @ Destroy # later) init) \<le> fetches (run evs init) \<and>
         (nothing_pending (run evs init) \<longrightarrow>
            presenceData (run (evs @ Destroy # later) init) = []) \<and>
         (delivered later = [] \<longrightarrow>
            messages (run (evs @ Destroy # later) init) = messages (run evs init))"
proof -
  let ?w = "run evs init"
  let ?d = "step Destroy ?w"
  have w: "wf ?w" by (rule wf_run)
  note d = step_Destroy_state [OF w assms]
  have wd: "wf ?d" using w by (rule wf_step)
  have pd: "phase ?d = Destroyed" using d by simp
  have r: "run (evs @ Destroy # later) init = fold step later ?d"
    by (simp add: run_def)
  have 1: "fetches (fold step later ?d) \<le> fetches ?w"
    using fold_Destroyed_frame [OF wd pd, of later] d by simp
  have 2: "nothing_pending ?w \<longrightarrow> presenceData (fold step later ?d) = []"
  proof
    assume "nothing_pending ?w"
    then have "nothing_pending ?d" using d by (simp add: nothing_pending_def)
    from fold_Destroyed_settled [OF wd pd this] d show "presenceData (fold step later ?d) = []"
      by simp
  qed
  have 3: "delivered later = [] \<longrightarrow> messages (fold step later ?d) = messages ?w"
    using fold_Destroyed_frame [OF wd pd, of later] d by simp
  from 1 2 3 show ?thesis unfolding r by blast
qed

theorem visible_state_after_release_witness:
  "nothing_pending (run [Mount, Deliver (Message ''a'' ''1''), PresenceEvent Update,
       FetchSettled (Some [PresenceMessage ''someid'' '''']), EnterSettled True,
       InitialGetSettled (Some [PresenceMessage ''someid'' ''''])] init) \<and>
   presenceData (run ([Mount, Deliver (Message ''a'' ''1''), PresenceEvent Update,
       FetchSettled (Some [PresenceMessage ''someid'' '''']), EnterSettled True,
       InitialGetSettled (Some [PresenceMessage ''someid'' ''''])] @
     Destroy # [PresenceEvent Leave, FetchSettled (Some [PresenceMessage ''B'' '''']),
       EnterSettled True, InitialGetSettled (Some [PresenceMessage ''B'' '''']), ClickUpdate,
       PresenceEvent Enter, FetchSettled (Some [PresenceMessage ''B'' ''''])]) init) = [] \<and>
   messages (run ([Mount, Deliver (Message ''a'' ''1''), PresenceEvent Update,
       FetchSettled (Some [PresenceMessage ''someid'' '''']), EnterSettled True,
       InitialGetSettled (Some [PresenceMessage ''someid'' ''''])] @
     Destroy # [PresenceEvent Leave, FetchSettled (Some [PresenceMessage ''B'' '''']),
       EnterSettled True, InitialGetSettled (Some [PresenceMessage ''B'' '''']), ClickUpdate,
       PresenceEvent Enter, FetchSettled (Some [PresenceMessage ''B'' ''''])]) init) =
     [Message ''a'' ''1''] \<and>
   fetches (run ([Mount, PresenceEvent Enter] @ Destroy # [PresenceEvent Leave, PresenceEvent Enter])
     init) \<le> 1"
  using visible_state_after_release [of "[Mount, Deliver (Message ''a'' ''1''), PresenceEvent Update,
       FetchSettled (Some [PresenceMessage ''someid'' '''']), EnterSettled True,
       InitialGetSettled (Some [PresenceMessage ''someid'' ''''])]"
      "[PresenceEvent Leave, FetchSettled (Some [PresenceMessage ''B'' '''']),
       EnterSettled True, InitialGetSettled (Some [PresenceMessage ''B'' '''']), ClickUpdate,
       PresenceEvent Enter, FetchSettled (Some [PresenceMessage ''B'' ''''])]"]
    visible_state_after_release [of "[Mount, PresenceEvent Enter]"
      "[PresenceEvent Leave, PresenceEvent Enter]"]
  by (simp add: nothing_pending_def model_defs run_def init_def)

section \<open>The steps of the cleanup function\<close>

text \<open>
  C4. The cleanup function should leave presence, deregister the three presence
  listeners, empty \<^verbatim>\<open>presenceData\<close>, deregister the message listener and detach the
  channel, in this order. Its calls come in this order, but the call in the place
  of the fourth step, line 41, passes the channel object to \<^verbatim>\<open>channel.unsubscribe\<close>:
  in every state the cleanup function leaves the channel's subscriptions as they
  were, and on a mount followed by the destruction of the instance the message
  listener is subscribed before and after, while the presence subscriptions are
  gone.
\<close>

theorem cleanup_keeps_message_listener:
  "(case cleanup w of
      Inr w' \<Rightarrow> channel_subs w' = channel_subs w
    | Inl e \<Rightarrow> channel w = None) \<and>
   channel_subs (run [Mount] init) = [MessageListener] \<and>
   channel_subs (run [Mount, Destroy] init) = [MessageListener] \<and>
   presence_subs (run [Mount, Destroy] init) = [] \<and>
   trace (run [Mount, Destroy] init) = trace (run [Mount] init) @
     [Call Presence_leave,
      Call (Presence_unsubscribe ''enter''),
      Call (Presence_unsubscribe ''leave''),
      Call (Presence_unsubscribe ''update''),
      Assign_presenceData [],
      Call (Channel_unsubscribe (Obj (Channel ''your-channel-name''))),
      Call Channel_detach]"
  by (simp add: model_defs run_def init_def split: option.splits)

section \<open>Presence snapshots\<close>

text \<open>
  C5. While the instance is mounted, a presence event of any kind makes one call of
  \<^verbatim>\<open>channel.presence.get()\<close> and changes nothing of \<^verbatim>\<open>presenceData\<close> by itself; when
  the call is fulfilled, \<^verbatim>\<open>presenceData\<close> is the snapshot fetched, whatever it held
  before and whatever the kind of the event: a replacement, never a delta.
\<close>

theorem presence_snapshot_replaces:
  assumes "phase (run evs init) = Mounted"
  shows "trace (run (evs @ [PresenceEvent a]) init) = trace (run evs init) @ [Call Presence_get] \<and>
         presenceData (run (evs @ [PresenceEvent a]) init) = presenceData (run evs init) \<and>
         presenceData (run (evs @ [PresenceEvent a, FetchSettled (Some s)]) init) = s"
proof -
  have w: "wf (run evs init)" by (rule wf_run)
  show ?thesis
    by (simp add: run_snoc run_snoc2 presence_event_Mounted [OF w assms] emit_def
        updatePresence_resume_def assign_presenceData_def)
qed

text \<open>A enters, B enters, A leaves: the snapshots shown are {A}, {A, B}, {B}.\<close>

theorem presence_snapshot_replaces_witness:
  "presenceData (run ([Mount] @ [PresenceEvent Enter,
       FetchSettled (Some [PresenceMessage ''A'' ''''])]) init) = [PresenceMessage ''A'' ''''] \<and>
   presenceData (run ([Mount, PresenceEvent Enter, FetchSettled (Some [PresenceMessage ''A'' ''''])] @
       [PresenceEvent Enter,
        FetchSettled (Some [PresenceMessage ''A'' '''', PresenceMessage ''B'' ''''])]) init) =
     [PresenceMessage ''A'' '''', PresenceMessage ''B''  ''''] \<and>
   presenceData (run ([Mount, PresenceEvent Enter, FetchSettled (Some [PresenceMessage ''A'' '''']),
        PresenceEvent Enter,
        FetchSettled (Some [PresenceMessage ''A'' '''', PresenceMessage ''B'' ''''])] @
       [PresenceEvent Leave, FetchSettled (Some [PresenceMessage ''B'' ''''])]) init) =
     [PresenceMessage ''B'' '''']"
  using
    presence_snapshot_replaces [of "[Mount]" Enter "[PresenceMessage ''A'' '''']"]
    presence_snapshot_replaces [of "[Mount, PresenceEvent Enter,
        FetchSettled (Some [PresenceMessage ''A'' ''''])]" Enter
      "[PresenceMessage ''A'' '''', PresenceMessage ''B'' '''']"]
    presence_snapshot_replaces [of "[Mount, PresenceEvent Enter,
        FetchSettled (Some [PresenceMessage ''A'' '''']), PresenceEvent Enter,
        FetchSettled (Some [PresenceMessage ''A'' '''', PresenceMessage ''B'' ''''])]" Leave
      "[PresenceMessage ''B'' '''']"]
  by (simp add: model_defs run_def init_def)

section \<open>The click handlers\<close>

text \<open>
  C6, as stated, fails. After the instance has been destroyed and the channel
  detached, \<^verbatim>\<open>sendMessage\<close> returns normally: no error reaches its caller. Before
  \<^verbatim>\<open>onMount\<close> it fails, with the TypeError of the null dereference.
\<close>

theorem publish_after_release_returns_normally:
  "phase (run [Mount, Destroy] init) = Destroyed \<and>
   detached (run [Mount, Destroy] init) \<and>
   \<not> isl (sendMessage (run [Mount, Destroy] init)) \<and>
   sendMessage (run [Mount, Destroy] init) \<noteq> Inl PublishError \<and>
   phase init = Created \<and>
   sendMessage init = Inl TypeError"
  by (simp add: model_defs run_def init_def)

text \<open>
  C6, amended. In every state an instance can reach, \<^verbatim>\<open>sendMessage\<close> fails only
  before \<^verbatim>\<open>onMount\<close> has run, with a TypeError; from \<^verbatim>\<open>onMount\<close> on, also after the
  cleanup function, it calls \<^verbatim>\<open>channel.publish("test-message", {text: "message text"})\<close>
  once and returns normally.
\<close>

theorem sendMessage_outcome:
  "sendMessage (run evs init) =
     (if phase (run evs init) = Created then Inl TypeError
      else Inr (emit (Call (Channel_publish ''test-message'' ''message text'')) (run evs init)))"
  using channel_Created [OF wf_run, of evs] channel_wf [OF wf_run, of evs]
  by (simp add: sendMessage_def)

theorem sendMessage_outcome_witness:
  "sendMessage (run [] init) = Inl TypeError \<and>
   sendMessage (run [Mount, Destroy] init) =
     Inr (emit (Call (Channel_publish ''test-message'' ''message text'')) (run [Mount, Destroy] init))"
  using sendMessage_outcome [of "[]"] sendMessage_outcome [of "[Mount, Destroy]"]
  by (simp add: model_defs run_def init_def)

text \<open>
  C7, as stated, fails. When the promise of \<^verbatim>\<open>presence.enter\<close> was rejected, so that
  presence was never entered, \<^verbatim>\<open>update\<close> returns normally: no error reaches its
  caller. Before \<^verbatim>\<open>onMount\<close> it fails, with the TypeError of the null dereference.
\<close>

theorem update_without_presence_returns_normally:
  "\<not> entered (run [Mount, EnterSettled False] init) \<and>
   iife (run [Mount, EnterSettled False] init) = Rejected \<and>
   \<not> isl (update ''hello'' (run [Mount, EnterSettled False] init)) \<and>
   update ''hello'' (run [Mount, EnterSettled False] init) \<noteq> Inl PresenceUpdateError \<and>
   \<not> entered init \<and>
   update ''hello'' init = Inl TypeError"
  by (simp add: model_defs run_def init_def)

text \<open>
  C7, amended. In every state an instance can reach, \<^verbatim>\<open>update\<close> fails only before
  \<^verbatim>\<open>onMount\<close> has run, with a TypeError; from \<^verbatim>\<open>onMount\<close> on, whether or not presence
  was entered, it calls \<^verbatim>\<open>channel.presence.update\<close> with its argument and returns
  normally. A click on the second button makes that call exactly once: nothing is
  retried.
\<close>

theorem update_outcome:
  "update text (run evs init) =
     (if phase (run evs init) = Created then Inl TypeError
      else Inr (emit (Call (Presence_update text)) (run evs init))) \<and>
   trace (run (evs @ [ClickUpdate]) init) =
     (if phase (run evs init) = Created then trace (run evs init)
      else trace (run evs init) @ [Call (Presence_update ''hello'')])"
  using channel_Created [OF wf_run, of evs] channel_wf [OF wf_run, of evs]
  by (simp add: update_def run_snoc uncaught_def emit_def)

theorem update_outcome_witness:
  "update ''hello'' (run [] init) = Inl TypeError \<and>
   update ''hello'' (run [Mount, EnterSettled False] init) =
     Inr (emit (Call (Presence_update ''hello'')) (run [Mount, EnterSettled False] init)) \<and>
   trace (run ([Mount, EnterSettled False] @ [ClickUpdate]) init) =
     trace (run [Mount, EnterSettled False] init) @ [Call (Presence_update ''hello'')]"
  using update_outcome [of "''hello''" "[]"] update_outcome [of "''hello''" "[Mount, EnterSettled False]"]
  by (simp add: model_defs run_def init_def)

section \<open>Entering presence and the initial snapshot\<close>

lemma iife_step:
  "wf w \<Longrightarrow> iife w \<noteq> AwaitingGet \<Longrightarrow> iife w \<noteq> Finished \<Longrightarrow> e \<noteq> EnterSettled True \<Longrightarrow>
     iife (step e w) \<noteq> AwaitingGet \<and> iife (step e w) \<noteq> Finished"
  by (cases e)
    (auto simp add: deliver_wf presence_event_wf handler_defs split: option.splits)

lemma iife_fold:
  "wf w \<Longrightarrow> iife w \<noteq> AwaitingGet \<Longrightarrow> iife w \<noteq> Finished \<Longrightarrow> EnterSettled True \<notin> set evs \<Longrightarrow>
     iife (fold step evs w) \<noteq> AwaitingGet \<and> iife (fold step evs w) \<noteq> Finished"
proof (induction evs arbitrary: w)
  case Nil
  then show ?case by simp
next
  case (Cons e evs)
  from Cons.prems have e: "e \<noteq> EnterSettled True" and evs: "EnterSettled True \<notin> set evs" by auto
  have s: "iife (step e w) \<noteq> AwaitingGet" "iife (step e w) \<noteq> Finished"
    using iife_step [OF Cons.prems(1,2,3) e] by simp_all
  have "wf (step e w)" using Cons.prems(1) by (rule wf_step)
  from Cons.IH [OF this s evs] show ?case by simp
qed

lemma trace_Created: "wf w \<Longrightarrow> phase w = Created \<Longrightarrow> trace w = []"
  by (simp add: wf_def init_def)

lemma trace_prefix: "wf w \<Longrightarrow> phase w \<noteq> Created \<Longrightarrow> prefix mount_trace (trace w)"
  by (cases "phase w") (simp_all add: wf_def)

lemma iife_Created: "wf w \<Longrightarrow> phase w = Created \<Longrightarrow> iife w = NotStarted"
  by (simp add: wf_def init_def)

text \<open>
  C8. In every state an instance can reach: the trace is empty before \<^verbatim>\<open>onMount\<close>
  and afterwards starts with the effects of \<^verbatim>\<open>onMount\<close>, which end with the call of
  \<^verbatim>\<open>presence.enter("")\<close> and hold no call of \<^verbatim>\<open>presence.get()\<close>, so presence is
  entered, with its payload, before any snapshot is fetched; as long as the promise
  of \<^verbatim>\<open>presence.enter\<close> has not been fulfilled, the asynchronous function of lines
  25-32 has neither made nor completed its fetch of line 31; and when that promise
  is fulfilled while the function waits for it, the function calls
  \<^verbatim>\<open>presence.get()\<close> and, on its fulfilment, assigns the snapshot to \<^verbatim>\<open>presenceData\<close>.
\<close>

theorem enter_before_initial_fetch:
  "(phase (run evs init) = Created \<longrightarrow> trace (run evs init) = []) \<and>
   (phase (run evs init) \<noteq> Created \<longrightarrow>
      prefix
        [Call (Realtime_new ''your-api-key-here'' ''someid''),
         Call (Channels_get ''your-channel-name''),
         Assign_channel (Channel ''your-channel-name''),
         Call (Channel_subscribe MessageListener),
         Call (Presence_subscribe ''enter'' UpdatePresence),
         Call (Presence_subscribe ''leave'' UpdatePresence),
         Call (Presence_subscribe ''update'' UpdatePresence),
         Call (Presence_enter '''')]
        (trace (run evs init))) \<and>
   (EnterSettled True \<notin> set evs \<longrightarrow>
      iife (run evs init) \<noteq> AwaitingGet \<and> iife (run evs init) \<noteq> Finished) \<and>
   (iife (run evs init) = AwaitingEnter \<longrightarrow>
      trace (run (evs @ [EnterSettled True]) init) = trace (run evs init) @ [Call Presence_get] \<and>
      presenceData (run (evs @ [EnterSettled True]) init) = presenceData (run evs init) \<and>
      trace (run (evs @ [EnterSettled True, InitialGetSettled (Some s)]) init) =
        trace (run evs init) @ [Call Presence_get, Assign_presenceData s] \<and>
      presenceData (run (evs @ [EnterSettled True, InitialGetSettled (Some s)]) init) = s)"
proof -
  let ?w = "run evs init"
  have w: "wf ?w" by (rule wf_run)
  have 1: "phase ?w = Created \<longrightarrow> trace ?w = []"
    using trace_Created [OF w] by simp
  have 2: "phase ?w \<noteq> Created \<longrightarrow> prefix mount_trace (trace ?w)"
    using trace_prefix [OF w] by simp
  have 3: "EnterSettled True \<notin> set evs \<longrightarrow> iife ?w \<noteq> AwaitingGet \<and> iife ?w \<noteq> Finished"
    using iife_fold [OF wf_init, of evs] by (simp add: run_def init_def)
  have c: "iife ?w = AwaitingEnter \<Longrightarrow> channel ?w = Some (Channel ''your-channel-name'')"
    using iife_Created [OF w] channel_wf [OF w] by (cases "phase ?w = Created") simp_all
  have 4: "iife ?w = AwaitingEnter \<longrightarrow>
      trace (run (evs @ [EnterSettled True]) init) = trace ?w @ [Call Presence_get] \<and>
      presenceData (run (evs @ [EnterSettled True]) init) = presenceData ?w \<and>
      trace (run (evs @ [EnterSettled True, InitialGetSettled (Some s)]) init) =
        trace ?w @ [Call Presence_get, Assign_presenceData s] \<and>
      presenceData (run (evs @ [EnterSettled True, InitialGetSettled (Some s)]) init) = s"
    using c by (simp add: run_snoc run_snoc2 model_defs)
  from 1 2 3 4 show ?thesis unfolding mount_trace_eq by blast
qed

theorem enter_before_initial_fetch_witness:
  "iife (run [Mount, PresenceEvent Enter, FetchSettled (Some [])] init) = AwaitingEnter \<and>
   trace (run ([Mount, PresenceEvent Enter, FetchSettled (Some [])] @ [EnterSettled True,
       InitialGetSettled (Some [PresenceMessage ''someid'' ''''])]) init) =
     trace (run [Mount, PresenceEvent Enter, FetchSettled (Some [])] init) @
       [Call Presence_get, Assign_presenceData [PresenceMessage ''someid'' '''']] \<and>
   trace (run [] init) = [] \<and>
   iife (run [Mount, EnterSettled False, InitialGetSettled (Some [])] init) = Rejected"
  using enter_before_initial_fetch [of "[Mount, PresenceEvent Enter, FetchSettled (Some [])]"
      "[PresenceMessage ''someid'' '''']"]
    enter_before_initial_fetch [of "[]"]
  by (simp add: model_defs run_def init_def)

section \<open>What the cleanup function leaves alone\<close>

text \<open>
  C9. In every state, the cleanup function leaves \<^verbatim>\<open>messages\<close> (and \<^verbatim>\<open>channel\<close>) as
  they were and leaves \<^verbatim>\<open>presenceData\<close> empty; it fails only when \<^verbatim>\<open>channel\<close> is
  null, and then changes nothing. A fresh instance starts with \<^verbatim>\<open>messages\<close> empty.
\<close>

theorem cleanup_frame:
  "messages (step Destroy w) = messages w \<and>
   (case cleanup w of
      Inr w' \<Rightarrow> messages w' = messages w \<and> presenceData w' = [] \<and> channel w' = channel w
    | Inl e \<Rightarrow> channel w = None) \<and>
   messages init = []"
  by (simp add: model_defs init_def split: option.splits)

theorem cleanup_frame_witness:
  "messages (step Destroy (run [Mount, Deliver (Message ''a'' ''1'')] init)) = [Message ''a'' ''1''] \<and>
   presenceData (step Destroy (run [Mount, Deliver (Message ''a'' ''1''), PresenceEvent Enter,
      FetchSettled (Some [PresenceMessage ''someid'' ''''])] init)) = []"
  using cleanup_frame [of "run [Mount, Deliver (Message ''a'' ''1'')] init"]
  by (simp add: model_defs run_def init_def)

section \<open>The dereference of channel\<close>

text \<open>
  C10. \<^verbatim>\<open>sendMessage\<close> and \<^verbatim>\<open>update\<close> dereference \<^verbatim>\<open>channel\<close> unguarded: while
  \<^verbatim>\<open>channel\<close> is null they fail with a TypeError, and \<^verbatim>\<open>channel\<close> is null as long as
  \<^verbatim>\<open>onMount\<close> has not run. Once \<^verbatim>\<open>onMount\<close> has run, \<^verbatim>\<open>channel\<close> holds the handle
  assigned in line 15 under every later event, and both handlers return normally.
\<close>

theorem channel_dereference:
  "(channel w = None \<longrightarrow> sendMessage w = Inl TypeError \<and> update text w = Inl TypeError) \<and>
   (Mount \<notin> set evs \<longrightarrow> channel (run evs init) = None) \<and>
   channel (run (Mount # evs') init) = Some (Channel ''your-channel-name'') \<and>
   \<not> isl (sendMessage (run (Mount # evs') init)) \<and>
   \<not> isl (update text (run (Mount # evs') init))"
  using channel_wf [OF wf_run phase_after_Mount, of evs']
  by (simp add: run_before_Mount sendMessage_def update_def) (simp add: init_def)

theorem channel_dereference_witness:
  "sendMessage init = Inl TypeError \<and> update ''hello'' init = Inl TypeError \<and>
   channel (run [ClickSend, PresenceEvent Enter, ClickUpdate] init) = None \<and>
   channel (run (Mount # [Destroy, Mount, ClickSend]) init) = Some (Channel ''your-channel-name'') \<and>
   \<not> isl (sendMessage (run (Mount # [Destroy, Mount, ClickSend]) init)) \<and>
   \<not> isl (update ''hello'' (run (Mount # [Destroy, Mount, ClickSend]) init))"
  using channel_dereference [of init "''hello''" "[ClickSend, PresenceEvent Enter, ClickUpdate]"
      "[Destroy, Mount, ClickSend]"]
  by (simp add: init_def)

end
